theory Spec2Isabelle
  imports Main "HOL-Library.Sublist"
begin

section \<open>The scale command of the S8S plugin\<close>

text \<open>
  A shallow embedding of class \<open>Scale\<close> of \<open>melctl_client_plugins/s8s/s8s.py\<close>:
  the argument type \<open>type_scalespecs\<close>, the argument check \<open>reprocess_args\<close> and the
  command body \<open>target\<close>, which expands the per-partition scale specifications into one
  request per node and posts them one after the other.
\<close>

subsection \<open>Data\<close>

text \<open>
  The class attribute \<open>partitions = ('cpu', 'gpu', 'mem', 'fpga')\<close>. The loop variable
  \<open>part\<close> only ever holds one of these four literals, so the four names are a datatype and
  \<open>partition_name\<close> gives back the string the source uses as flag name, attribute suffix
  and key of the features dictionary.
\<close>

datatype partition = Cpu | Gpu | Mem | Fpga

fun partition_name :: "partition \<Rightarrow> string" where
  "partition_name Cpu = ''cpu''"
| "partition_name Gpu = ''gpu''"
| "partition_name Mem = ''mem''"
| "partition_name Fpga = ''fpga''"

definition partitions :: "partition list" where
  "partitions = [Cpu, Gpu, Mem, Fpga]"

text \<open>
  The dictionary \<open>match.groupdict()\<close> of the regular expression: the two named groups
  \<open>nodes\<close> and \<open>time\<close>, both still strings.
\<close>

record scalespec =
  nodes :: string
  time :: string

text \<open>
  A value that a field of the namespace can hold: \<open>None\<close>, a string, or any other value
  that \<open>json.load\<close> can return (a number, a boolean, a list, a dictionary), which is kept
  as the text \<open>str\<close> gives for it. argparse only produces the first two; the others can
  come from the configuration file, whose values \<open>reprocess_args\<close> copies without a check.
\<close>

datatype pyval = PNone | PStr string | POther string

text \<open>
  The argparse namespace of the command. The positional \<open>name\<close> and the four identity
  flags default to \<open>None\<close>; every partition flag \<open>--p\<close> has \<open>dest = specs_p\<close>,
  \<open>default = []\<close> and \<open>action = 'append'\<close>.
\<close>

record args =
  name :: "string option"
  region :: pyval
  pool :: pyval
  master :: pyval
  token :: pyval
  dry_run :: bool
  specs_cpu :: "scalespec list"
  specs_gpu :: "scalespec list"
  specs_mem :: "scalespec list"
  specs_fpga :: "scalespec list"

text \<open>
  One element of \<open>scale_specs\<close>, the JSON body of one POST. The values of \<open>region\<close>,
  \<open>pool\<close>, \<open>master\<close> and \<open>token\<close> are whatever the namespace holds; \<open>features\<close> is a
  dictionary with a single key, kept as an association list.
\<close>

record node_specs =
  r_region :: pyval
  r_pool :: pyval
  features :: "(string \<times> bool) list"
  seconds :: nat
  r_master :: pyval
  r_token :: pyval

text \<open>
  The configuration file \<open>s8s_config.json\<close> as \<open>json.load\<close> returns it, seen through the
  two subscripts of \<open>reprocess_args\<close>: the names under which the file holds a dictionary,
  and the keys of that dictionary with their values, of any kind. \<open>None\<close> for the file
  stands for a file that is missing, is not JSON or is not a dictionary; a name without a
  dictionary under it is a name that is absent or holds something else. In each of these
  cases a subscript raises inside the \<open>try\<close>.

  The environment also holds \<open>sys.argv[1]\<close>, which one usage message quotes, the base URL
  of the service, and two things of the interpreter:
  \<^item> \<open>int_max_str_digits\<close> is \<open>sys.get_int_max_str_digits()\<close>, the longest digit string
    that \<open>int\<close> converts, 4300 unless configured otherwise, with 0 for no limit;
  \<^item> \<open>str_format msg\<close> is \<open>msg.format(melctl=..., cmd=...)\<close> as \<open>end_with_usage\<close> calls
    it, with \<open>None\<close> when the call raises, as it does on a template with a stray brace or
    an unknown field name.
\<close>

type_synonym config = "string \<rightharpoonup> (string \<rightharpoonup> pyval)"

record env =
  cfgfile :: "config option"
  argv1 :: string
  url :: string
  int_max_str_digits :: nat
  str_format :: "string \<Rightarrow> string option"

text \<open>
  How the command can end without a result.
  \<^item> \<open>TypeError\<close>: raised by \<open>type_scalespecs\<close>.
  \<^item> \<open>ArgumentError p tok\<close>: argparse rejecting the value \<open>tok\<close> of flag \<open>--p\<close> after
    its type function raised.
  \<^item> \<open>UsageError lines\<close>: \<open>end_with_usage\<close> having printed \<open>lines\<close> to stderr and
    called \<open>sys.exit(1)\<close>.
  \<^item> \<open>FormatError lines\<close>: \<open>end_with_usage\<close> having printed \<open>lines\<close> and then left
    with the exception of \<open>str.format\<close> on the next message.
  \<^item> \<open>ValueError\<close>: \<open>int\<close> refusing a digit string longer than the limit.
  \<^item> \<open>ValidationError msg\<close>: the guard of \<open>target\<close> on an empty \<open>scale_specs\<close>, which
    prints \<open>msg\<close> to stderr and calls \<open>sys.exit(1)\<close>.
  \<^item> \<open>ConnectionError\<close>, \<open>HTTPError code\<close>, \<open>JSONDecodeError\<close>: \<open>session.post\<close>,
    \<open>raise_for_status\<close> and \<open>req.json()\<close> raising.
\<close>

datatype error =
    TypeError
  | ArgumentError partition string
  | UsageError "string list"
  | FormatError "string list"
  | ValueError
  | ValidationError string
  | ConnectionError
  | HTTPError nat
  | JSONDecodeError

subsection \<open>The argument type\<close>

text \<open>
  \<open>regex_scalespecs = re.compile(r'^(?P<nodes>[0-9]+):(?P<time>[0-9]+)$')\<close>, used with
  \<open>match\<close>. Both groups are greedy runs of ASCII digits; the character after the first run
  must be the colon, so the run is the longest one, and likewise for the second run, which
  must reach the end of the string. Without \<open>re.MULTILINE\<close>, \<open>$\<close> also matches just before a
  newline that ends the string.
\<close>

definition is_digit :: "char \<Rightarrow> bool" where
  "is_digit c = (c \<in> set ''0123456789'')"

definition regex_scalespecs_match :: "string \<Rightarrow> scalespec option" where
  "regex_scalespecs_match arg =
     (let ns = takeWhile is_digit arg; rest = dropWhile is_digit arg in
      if ns = [] then None
      else (case rest of
              [] \<Rightarrow> None
            | c # rest' \<Rightarrow>
                if c \<noteq> CHR '':'' then None
                else (let ts = takeWhile is_digit rest'; end = dropWhile is_digit rest' in
                      if ts \<noteq> [] \<and> (end = [] \<or> end = [CHR 0x0A])
                      then Some \<lparr>nodes = ns, time = ts\<rparr>
                      else None)))"

text \<open>
  \<open>type_scalespecs\<close>: \<open>match\<close> returns \<open>None\<close> when the pattern does not match, the call of
  \<open>groupdict\<close> on it raises, and the handler turns every exception into \<open>TypeError\<close>.
\<close>

definition type_scalespecs :: "string \<Rightarrow> error + scalespec" where
  "type_scalespecs arg =
     (case regex_scalespecs_match arg of None \<Rightarrow> Inl TypeError | Some g \<Rightarrow> Inr g)"

text \<open>
  Python's \<open>int\<close> on a string of the digits \<open>0\<close> to \<open>9\<close>, the only strings the regular
  expression lets through (\<open>valid_scalespec\<close> below) and the only ones \<open>py_int\<close> is meant
  for. A string longer than the limit of the interpreter raises \<open>ValueError\<close>, leading
  zeros counted; any other one gives its decimal value, of unbounded size.
\<close>

definition digit_val :: "char \<Rightarrow> nat" where
  "digit_val c = of_char c - 48"

definition decimal :: "string \<Rightarrow> nat" where
  "decimal s = foldl (\<lambda>n c. 10 * n + digit_val c) 0 s"

definition fits :: "env \<Rightarrow> string \<Rightarrow> bool" where
  "fits e s = (int_max_str_digits e = 0 \<or> length s \<le> int_max_str_digits e)"

definition py_int :: "env \<Rightarrow> string \<Rightarrow> error + nat" where
  "py_int e s = (if fits e s then Inr (decimal s) else Inl ValueError)"

definition valid_scalespec :: "scalespec \<Rightarrow> bool" where
  "valid_scalespec g =
     (nodes g \<noteq> [] \<and> list_all is_digit (nodes g) \<and> time g \<noteq> [] \<and> list_all is_digit (time g))"

subsection \<open>The partition flags\<close>

text \<open>
  \<open>getattr(args, f'specs_{part}')\<close> for the four partitions.
\<close>

fun getattr_specs :: "args \<Rightarrow> partition \<Rightarrow> scalespec list" where
  "getattr_specs a Cpu = specs_cpu a"
| "getattr_specs a Gpu = specs_gpu a"
| "getattr_specs a Mem = specs_mem a"
| "getattr_specs a Fpga = specs_fpga a"

text \<open>
  The \<open>append\<close> action of argparse, as the constructor sets it up for every partition flag:
  each occurrence of \<open>--p tok\<close>, from left to right, converts \<open>tok\<close> with
  \<open>type_scalespecs\<close> and appends the result to \<open>specs_p\<close>; a conversion that raises
  \<open>TypeError\<close> ends the parse with an argument error. The command line is given as the
  list of its partition flag occurrences.
\<close>

fun append_spec :: "partition \<Rightarrow> scalespec \<Rightarrow> args \<Rightarrow> args" where
  "append_spec Cpu g a = a\<lparr>specs_cpu := specs_cpu a @ [g]\<rparr>"
| "append_spec Gpu g a = a\<lparr>specs_gpu := specs_gpu a @ [g]\<rparr>"
| "append_spec Mem g a = a\<lparr>specs_mem := specs_mem a @ [g]\<rparr>"
| "append_spec Fpga g a = a\<lparr>specs_fpga := specs_fpga a @ [g]\<rparr>"

fun parse_specs :: "(partition \<times> string) list \<Rightarrow> args \<Rightarrow> error + args" where
  "parse_specs [] a = Inr a"
| "parse_specs ((p, tok) # rest) a =
     (case type_scalespecs tok of
        Inl e \<Rightarrow> Inl (ArgumentError p tok)
      | Inr g \<Rightarrow> parse_specs rest (append_spec p g a))"

definition no_specs :: "args \<Rightarrow> bool" where
  "no_specs a = (specs_cpu a = [] \<and> specs_gpu a = [] \<and> specs_mem a = [] \<and> specs_fpga a = [])"

subsection \<open>reprocess_args\<close>

text \<open>
  \<open>filter(None, (args.region, args.pool, args.master, args.token))\<close> keeps the values that
  are true. \<open>None\<close> and the empty string are false; of the other values that JSON has,
  zero, \<open>False\<close> and the empty list and dictionary are. The filter runs on the namespace
  as argparse left it, which holds \<open>None\<close> and strings only.
\<close>

fun truthy :: "pyval \<Rightarrow> bool" where
  "truthy PNone = False"
| "truthy (PStr s) = (s \<noteq> [])"
| "truthy (POther r) = (r \<notin> set [''0'', ''0.0'', ''-0.0'', ''False'', ''[]'', ''{}''])"

definition manual_args :: "args \<Rightarrow> pyval list" where
  "manual_args a = filter truthy [region a, pool a, master a, token a]"

definition usage_name_xor_flags :: "string list" where
  "usage_name_xor_flags =
     [''usage: {cmd} {{name|--region,--pool,--master,--token}}'',
      ''{cmd}: error: either {{name}} or {{--region,--pool,--master,--token}} are required'']"

definition usage_not_found :: "env \<Rightarrow> string \<Rightarrow> string list" where
  "usage_not_found e n =
     [''{cmd}: error: configuration '' @ n @ '' not found or invalid'',
      ''You may create the configuration with {melctl} '' @ argv1 e @ '' set-config'']"

text \<open>
  \<open>end_with_usage(msgs)\<close>: each message is formatted and printed in turn, then the process
  exits with status 1. A message that \<open>str.format\<close> refuses ends the call with that
  exception instead, after the messages before it have been printed.
\<close>

fun print_msgs :: "env \<Rightarrow> string list \<Rightarrow> string list \<Rightarrow> error" where
  "print_msgs e [] printed = UsageError printed"
| "print_msgs e (msg # msgs) printed =
     (case str_format e msg of
        None \<Rightarrow> FormatError printed
      | Some line \<Rightarrow> print_msgs e msgs (printed @ [line]))"

definition end_with_usage :: "env \<Rightarrow> string list \<Rightarrow> error" where
  "end_with_usage e msgs = print_msgs e msgs []"

text \<open>
  The body of the \<open>try\<close>: open and decode the file, look the name up, then read the four
  keys in the order region, pool, master, token, and store each value as it is. Any
  exception leaves through the handler, so \<open>None\<close> here is the handler's case. A key that
  is there with the value \<open>null\<close> is no exception: the field becomes \<open>None\<close>.
\<close>

definition load_config :: "env \<Rightarrow> string \<Rightarrow> args \<Rightarrow> args option" where
  "load_config e n a =
     (case cfgfile e of
        None \<Rightarrow> None
      | Some js \<Rightarrow>
          (case js n of
             None \<Rightarrow> None
           | Some cfg \<Rightarrow>
               (case cfg ''region'' of
                  None \<Rightarrow> None
                | Some rg \<Rightarrow>
                    (case cfg ''pool'' of
                       None \<Rightarrow> None
                     | Some pl \<Rightarrow>
                         (case cfg ''master'' of
                            None \<Rightarrow> None
                          | Some ms \<Rightarrow>
                              (case cfg ''token'' of
                                 None \<Rightarrow> None
                               | Some tk \<Rightarrow>
                                   Some (a\<lparr>region := rg, pool := pl,
                                            master := ms, token := tk\<rparr>)))))))"

definition reprocess_args :: "env \<Rightarrow> args \<Rightarrow> error + args" where
  "reprocess_args e a =
     (case name a of
        Some n \<Rightarrow>
          if length (manual_args a) > 0 then Inl (end_with_usage e usage_name_xor_flags)
          else (case load_config e n a of
                  None \<Rightarrow> Inl (end_with_usage e (usage_not_found e n))
                | Some a' \<Rightarrow> Inr a')
      | None \<Rightarrow>
          if length (manual_args a) < 4 then Inl (end_with_usage e usage_name_xor_flags)
          else Inr a)"

subsection \<open>target: building the requests\<close>

text \<open>
  The dictionary appended to \<open>scale_specs\<close> in the innermost loop, given the value of
  \<open>int(part_specs['time'])\<close>.
\<close>

definition node_request :: "args \<Rightarrow> partition \<Rightarrow> nat \<Rightarrow> node_specs" where
  "node_request a part secs =
     \<lparr>r_region = region a,
      r_pool = pool a,
      features = [(partition_name part, True)],
      seconds = secs,
      r_master = master a,
      r_token = token a\<rparr>"

text \<open>
  The three nested loops, each one a recursion over the sequence it iterates, with
  \<open>scale_specs\<close> as accumulator: \<open>for _ in range(int(part_specs['nodes']))\<close>,
  \<open>for part_specs in getattr(args, f'specs_{part}')\<close> and \<open>for part in self.partitions\<close>.
  \<open>int(part_specs['nodes'])\<close> is evaluated once per specification, before its first
  iteration, and \<open>int(part_specs['time'])\<close> in every iteration, so not at all when the
  range is empty. Either may raise, which ends \<open>target\<close>.
\<close>

fun range_loop ::
  "env \<Rightarrow> args \<Rightarrow> partition \<Rightarrow> scalespec \<Rightarrow> nat list \<Rightarrow> node_specs list
     \<Rightarrow> error + node_specs list" where
  "range_loop e a part part_specs [] scale_specs = Inr scale_specs"
| "range_loop e a part part_specs (k # ks) scale_specs =
     (case py_int e (time part_specs) of
        Inl err \<Rightarrow> Inl err
      | Inr secs \<Rightarrow>
          range_loop e a part part_specs ks (scale_specs @ [node_request a part secs]))"

fun specs_loop ::
  "env \<Rightarrow> args \<Rightarrow> partition \<Rightarrow> scalespec list \<Rightarrow> node_specs list
     \<Rightarrow> error + node_specs list" where
  "specs_loop e a part [] scale_specs = Inr scale_specs"
| "specs_loop e a part (part_specs # rest) scale_specs =
     (case py_int e (nodes part_specs) of
        Inl err \<Rightarrow> Inl err
      | Inr n \<Rightarrow>
          (case range_loop e a part part_specs [0..<n] scale_specs of
             Inl err \<Rightarrow> Inl err
           | Inr scale_specs' \<Rightarrow> specs_loop e a part rest scale_specs'))"

fun parts_loop ::
  "env \<Rightarrow> args \<Rightarrow> partition list \<Rightarrow> node_specs list \<Rightarrow> error + node_specs list" where
  "parts_loop e a [] scale_specs = Inr scale_specs"
| "parts_loop e a (part # rest) scale_specs =
     (case specs_loop e a part (getattr_specs a part) scale_specs of
        Inl err \<Rightarrow> Inl err
      | Inr scale_specs' \<Rightarrow> parts_loop e a rest scale_specs')"

definition compile :: "env \<Rightarrow> args \<Rightarrow> error + node_specs list" where
  "compile e a = parts_loop e a partitions []"

subsection \<open>target: the guard and the requests\<close>

text \<open>
  The message of the guard:
  \<open>'Scaling specifications required: ' + ', '.join(f'[--{p} <nodes>:<seconds>]' ...)\<close>.
\<close>

fun join :: "string \<Rightarrow> string list \<Rightarrow> string" where
  "join sep [] = []"
| "join sep [s] = s"
| "join sep (s # t # rest) = s @ sep @ join sep (t # rest)"

definition usage_form :: "partition \<Rightarrow> string" where
  "usage_form p = ''[--'' @ partition_name p @ '' <nodes>:<seconds>]''"

definition specs_required :: string where
  "specs_required = ''Scaling specifications required: '' @ join '', '' (map usage_form partitions)"

text \<open>
  One call of \<open>session.post\<close>: the address, the JSON body and the \<open>dry_run\<close> query
  parameter. The remote service is a function from the posts made so far and the current
  one to what comes back: no answer at all, or a status code with a body that decodes as
  JSON (\<open>Some\<close>) or does not.
\<close>

record post =
  address :: string
  body :: node_specs
  dry_run_param :: bool

datatype reply = Unreachable | Reply nat "string option"

type_synonym remote = "post list \<Rightarrow> post \<Rightarrow> reply"

fun str_of :: "pyval \<Rightarrow> string" where
  "str_of PNone = ''None''"
| "str_of (PStr s) = s"
| "str_of (POther r) = r"

definition pool_url :: "env \<Rightarrow> args \<Rightarrow> string" where
  "pool_url e a = url e @ ''/s8s/regions/'' @ str_of (region a) @ ''/pools/'' @ str_of (pool a)"

text \<open>
  The last loop of \<open>target\<close>. The result is what \<open>target\<close> returns or how it fails, paired
  with the posts made, the failing one included. \<open>raise_for_status\<close> raises on the codes
  400 to 599. The line \<open>print(node_specs)\<close> writes to stdout and is left out.
\<close>

fun request_nodes ::
  "remote \<Rightarrow> env \<Rightarrow> args \<Rightarrow> node_specs list \<Rightarrow> post list \<Rightarrow> string list
     \<Rightarrow> (error + string list) \<times> post list" where
  "request_nodes srv e a [] sent scale_stats = (Inr scale_stats, sent)"
| "request_nodes srv e a (ns # rest) sent scale_stats =
     (let p = \<lparr>address = pool_url e a, body = ns, dry_run_param = dry_run a\<rparr> in
      case srv sent p of
        Unreachable \<Rightarrow> (Inl ConnectionError, sent @ [p])
      | Reply code js \<Rightarrow>
          if 400 \<le> code \<and> code < 600 then (Inl (HTTPError code), sent @ [p])
          else (case js of
                  None \<Rightarrow> (Inl JSONDecodeError, sent @ [p])
                | Some j \<Rightarrow> request_nodes srv e a rest (sent @ [p]) (scale_stats @ [j])))"

definition target :: "remote \<Rightarrow> env \<Rightarrow> args \<Rightarrow> (error + string list) \<times> post list" where
  "target srv e a0 =
     (case reprocess_args e a0 of
        Inl err \<Rightarrow> (Inl err, [])
      | Inr a \<Rightarrow>
          (case compile e a of
             Inl err \<Rightarrow> (Inl err, [])
           | Inr scale_specs \<Rightarrow>
               if length scale_specs < 1 then (Inl (ValidationError specs_required), [])
               else request_nodes srv e a scale_specs [] []))"

subsection \<open>Vocabulary of the statements\<close>

text \<open>
  The specifications that the occurrences of flag \<open>--p\<close> on a command line stand for, in
  the order of the occurrences. It is only used on command lines whose values all match.
\<close>

definition matched :: "partition \<Rightarrow> (partition \<times> string) list \<Rightarrow> scalespec list" where
  "matched p fl = map (\<lambda>x. the (regex_scalespecs_match (snd x))) (filter (\<lambda>x. fst x = p) fl)"

text \<open>
  A specification whose conversions all succeed: \<open>int\<close> accepts its \<open>nodes\<close> group, and
  its \<open>time\<close> group as well unless the node count is 0, in which case the loops never
  convert that group.
\<close>

definition convertible :: "env \<Rightarrow> scalespec \<Rightarrow> bool" where
  "convertible e g = (fits e (nodes g) \<and> (0 < decimal (nodes g) \<longrightarrow> fits e (time g)))"

text \<open>
  Inputs for the examples. The environment has no configuration file, the default limit
  of \<open>int\<close>, and for \<open>str.format\<close> what it gives with \<open>sys.argv = ['melctl', 's8s', 'scale',
  ...]\<close> on the two messages of \<open>usage_name_xor_flags\<close>, the only ones the examples print.
  The namespaces are: one with the four identity flags and no partition flag; the one
  argparse builds from a command line that names \<open>--gpu\<close> before \<open>--cpu\<close>; one with
  neither name nor flags; and one whose only specification has a node count of 4301
  digits, 4300 zeros and a one.
\<close>

definition example_format :: "string \<Rightarrow> string option" where
  "example_format msg =
     (if msg = ''usage: {cmd} {{name|--region,--pool,--master,--token}}''
      then Some ''usage: melctl s8s scale {name|--region,--pool,--master,--token}''
      else if msg = ''{cmd}: error: either {{name}} or {{--region,--pool,--master,--token}} are required''
      then Some ''melctl s8s scale: error: either {name} or {--region,--pool,--master,--token} are required''
      else None)"

definition example_env :: env where
  "example_env =
     \<lparr>cfgfile = None, argv1 = ''s8s'', url = ''https://melctl.example'',
      int_max_str_digits = 4300, str_format = example_format\<rparr>"

definition example_args :: args where
  "example_args =
     \<lparr>name = None, region = PStr ''lux'', pool = PStr ''p1'',
      master = PStr ''https://master.example'', token = PStr ''secret'',
      dry_run = False, specs_cpu = [], specs_gpu = [], specs_mem = [], specs_fpga = []\<rparr>"

definition example_flags :: "(partition \<times> string) list" where
  "example_flags = [(Gpu, ''1:120''), (Cpu, ''2:60'')]"

definition example_parsed :: args where
  "example_parsed =
     example_args\<lparr>specs_cpu := [\<lparr>nodes = ''2'', time = ''60''\<rparr>],
                  specs_gpu := [\<lparr>nodes = ''1'', time = ''120''\<rparr>]\<rparr>"




section \<open>The loops as lists\<close>

text \<open>
  Each loop only appends to its accumulator; what it appends is the sequence of its
  iterations, in order. A loop fails exactly when one of its conversions does.
\<close>

lemma range_loop_eq:
  "range_loop e a p g ks acc =
     (if ks = [] \<or> fits e (time g)
      then Inr (acc @ map (\<lambda>k. node_request a p (decimal (time g))) ks)
      else Inl ValueError)"
  by (induction ks arbitrary: acc) (auto simp: py_int_def)

lemma specs_loop_eq:
  "specs_loop e a p gs acc =
     (if list_all (convertible e) gs
      then Inr (acc @ concat (map (\<lambda>g. map (\<lambda>k. node_request a p (decimal (time g)))
                                        [0..<decimal (nodes g)]) gs))
      else Inl ValueError)"
  by (induction gs arbitrary: acc) (auto simp: py_int_def range_loop_eq convertible_def)

lemma parts_loop_eq:
  "parts_loop e a ps acc =
     (if list_all (\<lambda>p. list_all (convertible e) (getattr_specs a p)) ps
      then Inr (acc @ concat (map (\<lambda>p. concat (map (\<lambda>g. map (\<lambda>k. node_request a p (decimal (time g)))
                                                          [0..<decimal (nodes g)])
                                                (getattr_specs a p))) ps))
      else Inl ValueError)"
  by (induction ps arbitrary: acc) (auto simp: specs_loop_eq)

lemma list_all_partitions: "list_all P partitions \<longleftrightarrow> (\<forall>p. P p)"
proof
  assume h: "list_all P partitions"
  show "\<forall>p. P p"
  proof
    fix p show "P p" using h by (cases p) (simp_all add: partitions_def)
  qed
qed (simp add: list_all_iff)

lemma compile_eq:
  "compile e a =
     (if \<forall>p. list_all (convertible e) (getattr_specs a p)
      then Inr (concat (map (\<lambda>p. concat (map (\<lambda>g. map (\<lambda>k. node_request a p (decimal (time g)))
                                                   [0..<decimal (nodes g)])
                                         (getattr_specs a p))) partitions))
      else Inl ValueError)"
  by (simp add: compile_def parts_loop_eq list_all_partitions)




section \<open>The argument type and the partition flags\<close>

lemma takeWhile_all: "list_all P (takeWhile P xs)"
  by (induction xs) simp_all

lemma regex_scalespecs_valid:
  "regex_scalespecs_match arg = Some g \<Longrightarrow> valid_scalespec g"
  by (auto simp: regex_scalespecs_match_def valid_scalespec_def Let_def takeWhile_all
           split: if_splits list.splits)



lemma matched_Nil: "matched p [] = []"
  by (simp add: matched_def)

lemma matched_Cons:
  "matched p ((q, tok) # fl) =
     (if q = p then the (regex_scalespecs_match tok) # matched p fl else matched p fl)"
  by (simp add: matched_def)

text \<open>
  A command line parses exactly when every value matches, and the namespace that comes out
  is the one that went in with, for each partition, the matches of its own flag appended.
\<close>

lemma parse_specs_char:
  "parse_specs fl a0 = Inr a \<longleftrightarrow>
     (\<forall>x \<in> set fl. regex_scalespecs_match (snd x) \<noteq> None)
     \<and> a = a0\<lparr>specs_cpu := specs_cpu a0 @ matched Cpu fl,
              specs_gpu := specs_gpu a0 @ matched Gpu fl,
              specs_mem := specs_mem a0 @ matched Mem fl,
              specs_fpga := specs_fpga a0 @ matched Fpga fl\<rparr>"
proof (induction fl arbitrary: a0)
  case Nil
  show ?case by (auto simp: matched_Nil)
next
  case (Cons x fl)
  obtain p tok where x: "x = (p, tok)" by (cases x)
  show ?case
  proof (cases "regex_scalespecs_match tok")
    case None
    then show ?thesis by (simp add: x type_scalespecs_def)
  next
    case (Some g)
    then show ?thesis
      by (cases p) (auto simp: x type_scalespecs_def Cons.IH matched_Cons)
  qed
qed

lemma parse_specs_getattr:
  assumes "parse_specs fl a0 = Inr a"
  shows "map Inr (getattr_specs a p)
           = map Inr (getattr_specs a0 p)
             @ map (\<lambda>x. type_scalespecs (snd x)) (filter (\<lambda>x. fst x = p) fl)"
proof -
  from assms have ok: "\<forall>x \<in> set fl. regex_scalespecs_match (snd x) \<noteq> None"
    and a: "a = a0\<lparr>specs_cpu := specs_cpu a0 @ matched Cpu fl,
              specs_gpu := specs_gpu a0 @ matched Gpu fl,
              specs_mem := specs_mem a0 @ matched Mem fl,
              specs_fpga := specs_fpga a0 @ matched Fpga fl\<rparr>"
    by (simp_all add: parse_specs_char)
  have g: "getattr_specs a p = getattr_specs a0 p @ matched p fl"
    by (cases p) (simp_all add: a)
  have "map Inr (matched p fl) = map (\<lambda>x. type_scalespecs (snd x)) (filter (\<lambda>x. fst x = p) fl)"
    using ok by (auto simp: matched_def type_scalespecs_def)
  with g show ?thesis by simp
qed

lemma parse_specs_reorder:
  assumes "parse_specs fl a0 = Inr a"
    and "\<forall>p. filter (\<lambda>x. fst x = p) fl' = filter (\<lambda>x. fst x = p) fl"
  shows "parse_specs fl' a0 = Inr a"
proof -
  have m: "matched p fl' = matched p fl" for p
    using assms(2) by (simp add: matched_def)
  have "x \<in> set fl" if "x \<in> set fl'" for x
  proof -
    from that have "x \<in> set (filter (\<lambda>y. fst y = fst x) fl')" by simp
    with assms(2) have "x \<in> set (filter (\<lambda>y. fst y = fst x) fl)" by simp
    then show ?thesis by simp
  qed
  with assms(1) show ?thesis
    by (simp add: parse_specs_char m)
qed

lemma parse_specs_valid:
  assumes "parse_specs fl a0 = Inr a" and "no_specs a0"
  shows "list_all valid_scalespec (getattr_specs a p)"
proof -
  from assms(1) have ok: "\<forall>x \<in> set fl. regex_scalespecs_match (snd x) \<noteq> None"
    and a: "a = a0\<lparr>specs_cpu := specs_cpu a0 @ matched Cpu fl,
              specs_gpu := specs_gpu a0 @ matched Gpu fl,
              specs_mem := specs_mem a0 @ matched Mem fl,
              specs_fpga := specs_fpga a0 @ matched Fpga fl\<rparr>"
    by (simp_all add: parse_specs_char)
  have g: "getattr_specs a p = matched p fl"
    using assms(2) by (cases p) (simp_all add: a no_specs_def)
  have "valid_scalespec (the (regex_scalespecs_match (snd x)))" if "x \<in> set fl" for x
  proof -
    from ok that obtain h where "regex_scalespecs_match (snd x) = Some h" by auto
    then show ?thesis by (simp add: regex_scalespecs_valid)
  qed
  then have "list_all valid_scalespec (matched p fl)"
    by (simp add: matched_def list_all_iff)
  with g show ?thesis by simp
qed

section \<open>reprocess_args\<close>

lemma manual_args_4:
  "length (manual_args a) = 4
     \<longleftrightarrow> truthy (region a) \<and> truthy (pool a) \<and> truthy (master a) \<and> truthy (token a)"
  by (auto simp: manual_args_def)

lemma manual_args_le: "length (manual_args a) \<le> 4"
  by (auto simp: manual_args_def)

text \<open>
  The namespace that comes back differs from the one given in the four identity fields at
  most.
\<close>

lemma reprocess_args_specs:
  assumes "reprocess_args e a0 = Inr a"
  shows "getattr_specs a p = getattr_specs a0 p"
  using assms
  by (cases p; auto simp: reprocess_args_def load_config_def split: option.splits if_splits)

lemma reprocess_args_dry_run:
  assumes "reprocess_args e a0 = Inr a"
  shows "dry_run a = dry_run a0"
  using assms
  by (auto simp: reprocess_args_def load_config_def split: option.splits if_splits)

text \<open>Without a name, the four flags are all given and not empty, and nothing changes.\<close>

lemma reprocess_args_flags:
  assumes "reprocess_args e a0 = Inr a" and "name a0 = None"
  shows "a = a0 \<and> truthy (region a) \<and> truthy (pool a) \<and> truthy (master a) \<and> truthy (token a)"
proof -
  from assms have "\<not> length (manual_args a0) < 4" and "a = a0"
    by (auto simp: reprocess_args_def split: if_splits)
  with manual_args_le [of a0] have "length (manual_args a0) = 4" by simp
  with \<open>a = a0\<close> show ?thesis by (simp add: manual_args_4)
qed

text \<open>
  With a name, no flag is given and the four fields are the values of the entry of the
  file, whatever they are.
\<close>

lemma reprocess_args_config:
  assumes "reprocess_args e a0 = Inr a" and "name a0 = Some n"
  shows "\<exists>js cfg. cfgfile e = Some js \<and> js n = Some cfg
           \<and> cfg ''region'' = Some (region a) \<and> cfg ''pool'' = Some (pool a)
           \<and> cfg ''master'' = Some (master a) \<and> cfg ''token'' = Some (token a)
           \<and> manual_args a0 = []"
  using assms
  by (auto simp: reprocess_args_def load_config_def split: option.splits if_splits)



section \<open>The requests of one specification\<close>




section \<open>The order of the requests\<close>

text \<open>
  C2. Take a command line whose partition flag occurrences \<open>fl\<close> all parse, and let
  \<open>reprocess_args\<close> accept the namespace. Then the specifications of partition \<open>p\<close> are
  the values of the occurrences of \<open>--p\<close>, in the order of these occurrences. When every
  conversion of \<open>int\<close> succeeds, and only then, \<open>target\<close> builds the list \<open>scale_specs\<close>,
  which is the requests of cpu, then gpu, then mem, then fpga, within a partition those of
  its specifications in that order, and within a specification the requests of the
  iterations \<open>0, ..., nodes - 1\<close> of the innermost loop in ascending order. A command line
  that holds the same occurrences of each flag in the same order, interleaved in any other
  way, parses to the same namespace, hence to the same list.
\<close>

theorem compile_order:
  assumes "no_specs a0"
    and "parse_specs fl a0 = Inr a1"
    and "reprocess_args e a1 = Inr a"
  shows "(\<forall>p. map Inr (getattr_specs a p)
               = map (\<lambda>x. type_scalespecs (snd x)) (filter (\<lambda>x. fst x = p) fl))
       \<and> compile e a
           = (if \<forall>p. list_all (convertible e) (getattr_specs a p)
              then Inr (concat (map (\<lambda>p. concat (map (\<lambda>g. map (\<lambda>k. node_request a p (decimal (time g)))
                                                           [0..<decimal (nodes g)])
                                                 (getattr_specs a p)))
                                [Cpu, Gpu, Mem, Fpga]))
              else Inl ValueError)
       \<and> (\<forall>fl'. (\<forall>p. filter (\<lambda>x. fst x = p) fl' = filter (\<lambda>x. fst x = p) fl)
                 \<longrightarrow> parse_specs fl' a0 = Inr a1)"
proof -
  have s: "getattr_specs a0 p = []" for p
    using assms(1) by (cases p) (simp_all add: no_specs_def)
  have "map Inr (getattr_specs a p)
          = map (\<lambda>x. type_scalespecs (snd x)) (filter (\<lambda>x. fst x = p) fl)" for p
    using parse_specs_getattr [OF assms(2), of p] reprocess_args_specs [OF assms(3), of p]
    by (simp add: s)
  moreover have "compile e a
           = (if \<forall>p. list_all (convertible e) (getattr_specs a p)
              then Inr (concat (map (\<lambda>p. concat (map (\<lambda>g. map (\<lambda>k. node_request a p (decimal (time g)))
                                                           [0..<decimal (nodes g)])
                                                 (getattr_specs a p)))
                                [Cpu, Gpu, Mem, Fpga]))
              else Inl ValueError)"
    by (simp only: compile_eq partitions_def)
  moreover have "parse_specs fl' a0 = Inr a1"
    if "\<forall>p. filter (\<lambda>x. fst x = p) fl' = filter (\<lambda>x. fst x = p) fl" for fl'
    using parse_specs_reorder [OF assms(2) that] .
  ultimately show ?thesis by blast
qed

theorem compile_order_witness:
  "no_specs example_args
   \<and> parse_specs example_flags example_args = Inr example_parsed
   \<and> reprocess_args example_env example_parsed = Inr example_parsed
   \<and> compile example_env example_parsed
       = Inr [node_request example_parsed Cpu 60,
              node_request example_parsed Cpu 60,
              node_request example_parsed Gpu 120]"
proof -
  have h1: "no_specs example_args"
    by (simp add: no_specs_def example_args_def)
  have h2: "parse_specs example_flags example_args = Inr example_parsed"
    by (simp add: example_flags_def example_args_def example_parsed_def type_scalespecs_def
        regex_scalespecs_match_def is_digit_def)
  have h3: "reprocess_args example_env example_parsed = Inr example_parsed"
    by (simp add: reprocess_args_def example_parsed_def example_args_def manual_args_def)
  have c: "list_all (convertible example_env) (getattr_specs example_parsed p)" for p
    by (cases p)
       (simp_all add: example_parsed_def example_args_def convertible_def fits_def
          example_env_def)
  from compile_order [OF h1 h2 h3] c
  have "compile example_env example_parsed
           = Inr (concat (map (\<lambda>p. concat (map (\<lambda>g. map (\<lambda>k. node_request example_parsed p
                                                                  (decimal (time g)))
                                                      [0..<decimal (nodes g)])
                                            (getattr_specs example_parsed p)))
                              [Cpu, Gpu, Mem, Fpga]))"
    by simp
  also have "\<dots> = Inr [node_request example_parsed Cpu 60,
              node_request example_parsed Cpu 60,
              node_request example_parsed Gpu 120]"
    by (simp add: example_parsed_def example_args_def decimal_def digit_val_def upt_rec)
  finally show ?thesis using h1 h2 h3 by simp
qed

section \<open>No request to make\<close>


text \<open>
  The posts of the last loop are the requests of a prefix of \<open>scale_specs\<close>, in order, each
  to the pool's address with the \<open>dry_run\<close> flag of the namespace.
\<close>

lemma request_nodes_posts:
  "\<exists>k \<le> length specs.
     snd (request_nodes srv e a specs sent stats)
       = sent @ map (\<lambda>ns. \<lparr>address = pool_url e a, body = ns, dry_run_param = dry_run a\<rparr>)
                    (take k specs)"
proof (induction specs arbitrary: sent stats)
  case Nil
  show ?case by simp
next
  case (Cons ns rest)
  let ?p = "\<lparr>address = pool_url e a, body = ns, dry_run_param = dry_run a\<rparr>"
  show ?case
  proof (cases "\<exists>code j. srv sent ?p = Reply code (Some j) \<and> \<not> (400 \<le> code \<and> code < 600)")
    case True
    then obtain code j where
      r: "srv sent ?p = Reply code (Some j)" "\<not> (400 \<le> code \<and> code < 600)"
      by blast
    from Cons.IH [of "sent @ [?p]" "stats @ [j]"] obtain k where
      "k \<le> length rest" and
      "snd (request_nodes srv e a rest (sent @ [?p]) (stats @ [j]))
         = (sent @ [?p])
           @ map (\<lambda>ns. \<lparr>address = pool_url e a, body = ns, dry_run_param = dry_run a\<rparr>)
                 (take k rest)"
      by blast
    with r show ?thesis
      by (intro exI [of _ "Suc k"]) (auto simp: Let_def)
  next
    case False
    then have "snd (request_nodes srv e a (ns # rest) sent stats) = sent @ [?p]"
      by (auto simp: Let_def split: reply.splits option.splits)
    then show ?thesis
      by (intro exI [of _ "Suc 0"]) simp
  qed
qed

text \<open>A command that \<open>reprocess_args\<close> or a conversion ends makes no post.\<close>

lemma target_usage_error:
  "reprocess_args e a0 = Inl err \<Longrightarrow> target srv e a0 = (Inl err, [])"
  by (simp add: target_def)

lemma target_value_error:
  "reprocess_args e a0 = Inr a \<Longrightarrow> compile e a = Inl err \<Longrightarrow> target srv e a0 = (Inl err, [])"
  by (simp add: target_def)




end
